theory Spec2Isabelle
  imports
    Main
    "HOL-Library.Multiset"
    "HOL-Library.Char_ord"
    "HOL-Library.List_Lexorder"
    "HOL-Library.Sublist"
begin

section \<open>Data model\<close>

text \<open>
  The three tables of the attendance application. Identifiers are UUID strings, dates
  are ISO-8601 strings (\<open>YYYY-MM-DD\<close>), whose lexicographic order is the calendar
  order; timestamps are ISO strings as well. The linear order on \<open>string\<close> (character
  codes, lexicographic) stands for the order the store applies to a column.
\<close>

record Member =
  m_id :: string
  m_created_at :: string
  full_name :: string
  phone_number :: "string option"
  email :: "string option"

record Service =
  s_id :: string
  s_created_at :: string
  s_name :: string
  description :: "string option"
  service_date :: string

record AttendanceRow =
  a_id :: string
  member_id :: string
  service_id :: string
  a_service_date :: string

text \<open>
  A table is the list of its rows: the store does not enforce that a (member, service)
  pair occurs once in \<open>attendance_records\<close>, so duplicates must be representable.
\<close>

record db =
  members :: "Member list"
  services :: "Service list"
  attendance_records :: "AttendanceRow list"

text \<open>Every round trip to the store and every cache invalidation is logged.\<close>

datatype call =
    SelectServiceDate string
  | SelectAttendanceId string string
  | InsertAttendance string string
  | DeleteAttendance string string
  | SelectAttendanceJoined
  | SelectAttendanceOfService string
  | SelectMembers
  | SelectServices
  | InsertMember
  | InsertService
  | RevalidatePath string

record world =
  store :: db
  calls :: "call list"

text \<open>
  The client answers every query with \<open>{ data, error }\<close>; it does not raise. A query
  that fails (network, permission, malformed request) has \<open>data = null\<close> and an error
  with a message.
\<close>

record 'a response =
  data :: "'a option"
  error :: "string option"

text \<open>
  What the environment decides for one execution of an action: for each round trip
  whether the store fails it (and with which message), and the identifier and
  timestamp the store generates for a new row.
\<close>

record env =
  svc_fault :: "string option"
  chk_fault :: "string option"
  ins_fault :: "string option"
  del_fault :: "string option"
  new_id :: string
  now :: string

text \<open>The value of a server action: \<open>{ success: true }\<close> or \<open>{ error: msg }\<close>.\<close>

datatype result = Success | Error string

text \<open>How a function ends: it returns a value, throws an \<open>Error\<close>, or redirects.\<close>

datatype 'a outcome = Returned 'a | Thrown string | Redirected string

type_synonym FormData = "string \<rightharpoonup> string"

section \<open>The store\<close>

definition ok :: "'a \<Rightarrow> 'a response" where
  "ok x = \<lparr>data = Some x, error = None\<rparr>"

definition failed :: "string \<Rightarrow> 'a response" where
  "failed msg = \<lparr>data = None, error = Some msg\<rparr>"

text \<open>
  The messages of the store's own errors. Their wording is the store's; the actions
  only prepend their own text to them.
\<close>

definition single_msg :: string where
  "single_msg = ''JSON object requested, multiple (or no) rows returned''"

definition fk_msg :: string where
  "fk_msg = ''insert or update on table attendance_records violates foreign key constraint''"


text \<open>
  The store client's \<open>.single()\<close> (a library call): it answers with the row when
  exactly one row matches and with an error, and no data, when none or several do.
\<close>

fun single :: "'a list \<Rightarrow> 'a response" where
  "single [r] = ok r"
| "single rs = failed single_msg"

definition logged :: "call \<Rightarrow> world \<Rightarrow> world" where
  "logged c w = w\<lparr>calls := calls w @ [c]\<rparr>"

definition is_pair :: "string \<Rightarrow> string \<Rightarrow> AttendanceRow \<Rightarrow> bool" where
  "is_pair memberId serviceId r \<longleftrightarrow> member_id r = memberId \<and> service_id r = serviceId"

text \<open>
  The relational store is an external service; the queries below follow the schema the
  repository ships: three tables with primary key \<open>id\<close>, foreign keys from
  \<open>attendance_records\<close> to \<open>members\<close> and \<open>services\<close>, \<open>UNIQUE(service_date)\<close> on
  \<open>services\<close>, and no uniqueness constraint on the (member, service) pair. Each
  function is one query of the source, named by the table and the filter it uses; its
  first argument says whether the store fails the query.
\<close>

definition select_service_date ::
  "string option \<Rightarrow> string \<Rightarrow> world \<Rightarrow> string response \<times> world" where
  "select_service_date fault serviceId w =
     ((case fault of
         Some msg \<Rightarrow> failed msg
       | None \<Rightarrow> single (map service_date
                   (filter (\<lambda>s. s_id s = serviceId) (services (store w))))),
      logged (SelectServiceDate serviceId) w)"

definition select_attendance_id ::
  "string option \<Rightarrow> string \<Rightarrow> string \<Rightarrow> world \<Rightarrow> string response \<times> world" where
  "select_attendance_id fault memberId serviceId w =
     ((case fault of
         Some msg \<Rightarrow> failed msg
       | None \<Rightarrow> single (map a_id
                   (filter (is_pair memberId serviceId) (attendance_records (store w))))),
      logged (SelectAttendanceId memberId serviceId) w)"

definition insert_attendance ::
  "string option \<Rightarrow> AttendanceRow \<Rightarrow> world \<Rightarrow> string option \<times> world" where
  "insert_attendance fault row w =
     (let w' = logged (InsertAttendance (member_id row) (service_id row)) w in
      case fault of
        Some msg \<Rightarrow> (Some msg, w')
      | None \<Rightarrow>
          if member_id row \<in> set (map m_id (members (store w)))
             \<and> service_id row \<in> set (map s_id (services (store w)))
          then (None, w'\<lparr>store := (store w)\<lparr>attendance_records :=
                        attendance_records (store w) @ [row]\<rparr>\<rparr>)
          else (Some fk_msg, w'))"

definition delete_attendance ::
  "string option \<Rightarrow> string \<Rightarrow> string \<Rightarrow> world \<Rightarrow> string option \<times> world" where
  "delete_attendance fault memberId serviceId w =
     (let w' = logged (DeleteAttendance memberId serviceId) w in
      case fault of
        Some msg \<Rightarrow> (Some msg, w')
      | None \<Rightarrow> (None, w'\<lparr>store := (store w)\<lparr>attendance_records :=
                    filter (\<lambda>r. \<not> is_pair memberId serviceId r)
                      (attendance_records (store w))\<rparr>\<rparr>))"

definition revalidatePath :: "string \<Rightarrow> world \<Rightarrow> world" where
  "revalidatePath p w = logged (RevalidatePath p) w"

text \<open>JavaScript's \<open>'...' + e?.message\<close>: an absent error prints as \<open>undefined\<close>.\<close>

fun message :: "string option \<Rightarrow> string" where
  "message (Some msg) = msg"
| "message None = ''undefined''"

section \<open>Attendance actions\<close>

text \<open>
  \<open>toggleAttendance(memberId, serviceId)\<close>: validation, then the service lookup, then
  the existence check, of which only \<open>data\<close> is read, then a delete or an insert.
\<close>

definition toggleAttendance ::
  "env \<Rightarrow> string \<Rightarrow> string \<Rightarrow> world \<Rightarrow> result outcome \<times> world" where
  "toggleAttendance e memberId serviceId w =
     (if memberId = [] \<or> serviceId = [] then
        (Returned (Error ''Member and service are required''), w)
      else
        let (svc, w1) = select_service_date (svc_fault e) serviceId w in
        case (error svc, data svc) of
          (None, Some service) \<Rightarrow>
            let (existingRecord, w2) =
                  select_attendance_id (chk_fault e) memberId serviceId w1 in
            (case data existingRecord of
               Some rid \<Rightarrow>
                 let (err, w3) = delete_attendance (del_fault e) memberId serviceId w2 in
                 (case err of
                    Some msg \<Rightarrow> (Returned (Error (''Failed to unmark attendance: '' @ msg)), w3)
                  | None \<Rightarrow> (Returned Success, revalidatePath ''/attendance'' w3))
             | None \<Rightarrow>
                 let (err, w3) = insert_attendance (ins_fault e)
                       \<lparr>a_id = new_id e, member_id = memberId, service_id = serviceId,
                        a_service_date = service\<rparr> w2 in
                 (case err of
                    Some msg \<Rightarrow> (Returned (Error (''Failed to mark attendance: '' @ msg)), w3)
                  | None \<Rightarrow> (Returned Success, revalidatePath ''/attendance'' w3)))
        | (serviceError, _) \<Rightarrow>
            (Returned (Error (''Failed to fetch service details: '' @ message serviceError)), w1))"

text \<open>
  \<open>markAttendance(formData)\<close>: the identifiers are read from the form; a missing field
  is \<open>null\<close>, which \<open>!memberId\<close> rejects like the empty string.
\<close>

definition markAttendance ::
  "env \<Rightarrow> FormData \<Rightarrow> world \<Rightarrow> result outcome \<times> world" where
  "markAttendance e formData w =
     (case (formData ''memberId'', formData ''serviceId'') of
        (Some memberId, Some serviceId) \<Rightarrow>
          if memberId = [] \<or> serviceId = [] then
            (Returned (Error ''Member and service are required''), w)
          else
            let (svc, w1) = select_service_date (svc_fault e) serviceId w in
            (case (error svc, data svc) of
               (None, Some service) \<Rightarrow>
                 let (existingRecord, w2) =
                       select_attendance_id (chk_fault e) memberId serviceId w1 in
                 (case data existingRecord of
                    Some rid \<Rightarrow>
                      (Returned (Error
                         ''Attendance already marked for this member for this service''), w2)
                  | None \<Rightarrow>
                      let (err, w3) = insert_attendance (ins_fault e)
                            \<lparr>a_id = new_id e, member_id = memberId, service_id = serviceId,
                             a_service_date = service\<rparr> w2 in
                      (case err of
                         Some msg \<Rightarrow>
                           (Returned (Error (''Failed to mark attendance: '' @ msg)), w3)
                       | None \<Rightarrow> (Returned Success, revalidatePath ''/attendance'' w3)))
             | (serviceError, _) \<Rightarrow>
                 (Returned (Error
                    (''Failed to fetch service details: '' @ message serviceError)), w1))
      | _ \<Rightarrow> (Returned (Error ''Member and service are required''), w))"

definition form :: "string \<Rightarrow> string \<Rightarrow> FormData" where
  "form memberId serviceId = [''memberId'' \<mapsto> memberId, ''serviceId'' \<mapsto> serviceId]"

section \<open>Read queries\<close>

text \<open>
  A read query throws when the store reports an error. \<open>ORDER BY\<close> leaves the order of
  rows with equal keys open; the model fixes one such order (a stable sort), and the
  theorems below only use that the result is ordered and has the same rows.
\<close>

definition order_asc :: "('a \<Rightarrow> string) \<Rightarrow> 'a list \<Rightarrow> 'a list" where
  "order_asc key rows = sort_key key rows"

definition order_desc :: "('a \<Rightarrow> string) \<Rightarrow> 'a list \<Rightarrow> 'a list" where
  "order_desc key rows = rev (sort_key key rows)"

text \<open>
  A related row as it arrives in a query result. The relation from an attendance row
  to its service, and to its member, is many-to-one (a foreign key to a primary key),
  and the store embeds such a relation as one object, or as \<open>null\<close> when there is no
  related row. An array is what the store gives for a to-many relation, and what the
  records page's interface declares (\<open>services: { name: string }[]\<close>).
\<close>

datatype 'a embedded = Null | Obj 'a | Arr "'a list"

definition to_one :: "'a option \<Rightarrow> 'a embedded" where
  "to_one r = (case r of None \<Rightarrow> Null | Some x \<Rightarrow> Obj x)"

text \<open>The records page's \<open>AttendanceRecord\<close>: a row joined with its service and member.\<close>

record AttendanceRecord =
  r_id :: string
  r_service_date :: string
  r_services :: "string embedded"
  r_members :: "string embedded"

definition joined :: "db \<Rightarrow> AttendanceRow \<Rightarrow> AttendanceRecord" where
  "joined d a =
     \<lparr>r_id = a_id a, r_service_date = a_service_date a,
      r_services = to_one (map_option s_name
                     (find (\<lambda>s. s_id s = service_id a) (services d))),
      r_members = to_one (map_option full_name
                    (find (\<lambda>m. m_id m = member_id a) (members d)))\<rparr>"

definition getAttendanceRecords ::
  "string option \<Rightarrow> world \<Rightarrow> AttendanceRecord list outcome \<times> world" where
  "getAttendanceRecords fault w =
     ((case fault of
         Some msg \<Rightarrow> Thrown (''Failed to fetch attendance records: '' @ msg)
       | None \<Rightarrow> Returned (order_desc r_service_date
                   (map (joined (store w)) (attendance_records (store w))))),
      logged SelectAttendanceJoined w)"

text \<open>
  The optional element access \<open>v?.[0]\<close>: the first element of an array; \<open>undefined\<close>
  for \<open>null\<close>, for an empty array, and for an object, which has no property \<open>0\<close>.
\<close>

fun at0 :: "'a embedded \<Rightarrow> 'a option" where
  "at0 (Arr (x # xs)) = Some x"
| "at0 v = None"

text \<open>\<open>record.services?.[0]?.name || 'Unknown Service'\<close>: the empty name is falsy.\<close>

definition serviceName :: "AttendanceRecord \<Rightarrow> string" where
  "serviceName r =
     (case at0 (r_services r) of
        None \<Rightarrow> ''Unknown Service''
      | Some n \<Rightarrow> if n = [] then ''Unknown Service'' else n)"

text \<open>
  The accumulator of the reduction is a plain object \<open>{}\<close>: besides the groups it has
  been given, a lookup finds the properties every object inherits, all of them truthy.
\<close>

definition object_prototype_keys :: "string list" where
  "object_prototype_keys =
     [''constructor'', ''__defineGetter__'', ''__defineSetter__'', ''hasOwnProperty'',
      ''__lookupGetter__'', ''__lookupSetter__'', ''isPrototypeOf'',
      ''propertyIsEnumerable'', ''toString'', ''valueOf'', ''__proto__'',
      ''toLocaleString'']"

text \<open>
  One step of the reduction: \<open>if (!acc[serviceName]) acc[serviceName] = []\<close>, then
  \<open>acc[serviceName].push(record)\<close>. For a name that is an inherited property no array
  is created and \<open>push\<close> is not a function: the step throws a \<open>TypeError\<close>.
\<close>

definition group_step ::
  "(string \<rightharpoonup> AttendanceRecord list) \<Rightarrow> AttendanceRecord
     \<Rightarrow> string + (string \<rightharpoonup> AttendanceRecord list)" where
  "group_step acc r =
     (case acc (serviceName r) of
        Some rs \<Rightarrow> Inr (acc(serviceName r \<mapsto> rs @ [r]))
      | None \<Rightarrow>
          if serviceName r \<in> set object_prototype_keys
          then Inl ''TypeError: acc[serviceName].push is not a function''
          else Inr (acc(serviceName r \<mapsto> [r])))"

fun reduce_groups ::
  "(string \<rightharpoonup> AttendanceRecord list) \<Rightarrow> AttendanceRecord list
     \<Rightarrow> (string \<rightharpoonup> AttendanceRecord list) outcome" where
  "reduce_groups acc [] = Returned acc"
| "reduce_groups acc (r # rs) =
     (case group_step acc r of
        Inl msg \<Rightarrow> Thrown msg
      | Inr acc' \<Rightarrow> reduce_groups acc' rs)"

definition recordsByService ::
  "AttendanceRecord list \<Rightarrow> (string \<rightharpoonup> AttendanceRecord list) outcome" where
  "recordsByService records = reduce_groups Map.empty records"

text \<open>\<open>Total attendees: {serviceRecords.length}\<close>; a name with no group shows nothing.\<close>

definition attendees :: "(string \<rightharpoonup> AttendanceRecord list) \<Rightarrow> string \<Rightarrow> nat" where
  "attendees groups n = (case groups n of None \<Rightarrow> 0 | Some rs \<Rightarrow> length rs)"

definition getServiceAttendance ::
  "string option \<Rightarrow> string \<Rightarrow> world \<Rightarrow> AttendanceRow list outcome \<times> world" where
  "getServiceAttendance fault serviceId w =
     ((case fault of
         Some msg \<Rightarrow> Thrown (''Failed to fetch service attendance: '' @ msg)
       | None \<Rightarrow> Returned (filter (\<lambda>a. service_id a = serviceId)
                   (attendance_records (store w)))),
      logged (SelectAttendanceOfService serviceId) w)"

text \<open>The attendance page's \<open>Member\<close>: \<open>select('id, full_name')\<close>.\<close>

record MemberName =
  mn_id :: string
  mn_full_name :: string

definition getMembers ::
  "string option \<Rightarrow> world \<Rightarrow> MemberName list outcome \<times> world" where
  "getMembers fault w =
     ((case fault of
         Some msg \<Rightarrow> Thrown (''Failed to fetch members: '' @ msg)
       | None \<Rightarrow> Returned (order_asc mn_full_name
                   (map (\<lambda>m. \<lparr>mn_id = m_id m, mn_full_name = full_name m\<rparr>)
                      (members (store w))))),
      logged SelectMembers w)"

text \<open>The admin page's \<open>getMembers\<close>: \<open>select('*')\<close>, newest first.\<close>

definition admin_getMembers ::
  "string option \<Rightarrow> world \<Rightarrow> Member list outcome \<times> world" where
  "admin_getMembers fault w =
     ((case fault of
         Some msg \<Rightarrow> Thrown (''Failed to fetch members: '' @ msg)
       | None \<Rightarrow> Returned (order_desc m_created_at (members (store w)))),
      logged SelectMembers w)"


section \<open>Directory actions\<close>





section \<open>Predicates used by the properties\<close>

definition count_pair :: "string \<Rightarrow> string \<Rightarrow> db \<Rightarrow> nat" where
  "count_pair memberId serviceId d =
     length (filter (is_pair memberId serviceId) (attendance_records d))"

text \<open>At most one attendance row for every (member, service) pair.\<close>

definition at_most_one :: "db \<Rightarrow> bool" where
  "at_most_one d \<longleftrightarrow> distinct (map (\<lambda>r. (member_id r, service_id r)) (attendance_records d))"

definition no_faults :: "env \<Rightarrow> bool" where
  "no_faults e \<longleftrightarrow>
     svc_fault e = None \<and> chk_fault e = None \<and> ins_fault e = None \<and> del_fault e = None"

section \<open>Example states\<close>

definition ex_member :: Member where
  "ex_member = \<lparr>m_id = ''m1'', m_created_at = ''2024-01-02T10:00:00Z'', full_name = ''Jane Doe'',
                 phone_number = None, email = None\<rparr>"

definition ex_service :: Service where
  "ex_service = \<lparr>s_id = ''s1'', s_created_at = ''2024-01-01T09:00:00Z'',
                  s_name = ''Sunday Service'', description = None,
                  service_date = ''2024-01-07''\<rparr>"

definition ex_world :: world where
  "ex_world = \<lparr>store = \<lparr>members = [ex_member], services = [ex_service],
                          attendance_records = []\<rparr>, calls = []\<rparr>"

definition ex_row :: AttendanceRow where
  "ex_row = \<lparr>a_id = ''a1'', member_id = ''m1'', service_id = ''s1'',
              a_service_date = ''2024-01-07''\<rparr>"

definition ex_marked :: world where
  "ex_marked = \<lparr>store = \<lparr>members = [ex_member], services = [ex_service],
                           attendance_records = [ex_row]\<rparr>, calls = []\<rparr>"

definition ex_env :: env where
  "ex_env = \<lparr>svc_fault = None, chk_fault = None, ins_fault = None, del_fault = None,
              new_id = ''a2'', now = ''2024-01-07T08:00:00Z''\<rparr>"

definition ex_alice :: Member where
  "ex_alice = \<lparr>m_id = ''m1'', m_created_at = ''2024-01-02T10:00:00Z'', full_name = ''Alice Mensah'',
                phone_number = None, email = None\<rparr>"

definition ex_bob :: Member where
  "ex_bob = \<lparr>m_id = ''m2'', m_created_at = ''2024-01-03T10:00:00Z'', full_name = ''Bob Owusu'',
              phone_number = None, email = None\<rparr>"

definition ex_directory :: world where
  "ex_directory = \<lparr>store = \<lparr>members = [ex_alice, ex_bob], services = [],
                              attendance_records = []\<rparr>, calls = []\<rparr>"

section \<open>Basic facts about the store\<close>

lemma data_single: "data (single xs) = (if length xs = 1 then Some (hd xs) else None)"
  by (cases xs rule: single.cases) (simp_all add: ok_def failed_def)

lemma error_single: "error (single xs) = (if length xs = 1 then None else Some single_msg)"
  by (cases xs rule: single.cases) (simp_all add: ok_def failed_def)

lemma store_logged [simp]: "store (logged c w) = store w"
  by (simp add: logged_def)

lemma calls_logged [simp]: "calls (logged c w) = calls w @ [c]"
  by (simp add: logged_def)

lemma form_memberId [simp]: "form m s ''memberId'' = Some m"
  by (simp add: form_def)

lemma form_serviceId [simp]: "form m s ''serviceId'' = Some s"
  by (simp add: form_def)

text \<open>The service lookup, in its three cases.\<close>

lemma lookup_found:
  assumes "filter (\<lambda>x. s_id x = serviceId) (services (store w)) = [svc]"
  shows "select_service_date None serviceId w =
           (ok (service_date svc), logged (SelectServiceDate serviceId) w)"
  using assms by (simp add: select_service_date_def)

lemma lookup_absent:
  assumes "filter (\<lambda>x. s_id x = serviceId) (services (store w)) = []"
  shows "select_service_date None serviceId w =
           (failed single_msg, logged (SelectServiceDate serviceId) w)"
  using assms by (simp add: select_service_date_def)

lemma lookup_fault:
  "select_service_date (Some msg) serviceId w =
           (failed msg, logged (SelectServiceDate serviceId) w)"
  by (simp add: select_service_date_def)

lemma check_data:
  "(data (fst (select_attendance_id fault memberId serviceId w)) = None) =
     (fault \<noteq> None \<or> count_pair memberId serviceId (store w) \<noteq> 1)"
  by (cases fault) (auto simp: select_attendance_id_def count_pair_def data_single failed_def)

lemma check_error:
  "(error (fst (select_attendance_id fault memberId serviceId w)) = None) =
     (fault = None \<and> count_pair memberId serviceId (store w) = 1)"
  by (cases fault) (auto simp: select_attendance_id_def count_pair_def error_single failed_def)

lemma check_world:
  "snd (select_attendance_id fault memberId serviceId w) = logged (SelectAttendanceId memberId serviceId) w"
  by (simp add: select_attendance_id_def)

lemma mark_unfold:
  assumes "memberId \<noteq> []" "serviceId \<noteq> []"
    and "filter (\<lambda>x. s_id x = serviceId) (services (store w)) = [svc]"
    and "svc_fault e = None"
  shows "markAttendance e (form memberId serviceId) w =
     (let w2 = logged (SelectAttendanceId memberId serviceId) (logged (SelectServiceDate serviceId) w) in
      if chk_fault e = None \<and> count_pair memberId serviceId (store w) = 1 then
        (Returned (Error ''Attendance already marked for this member for this service''), w2)
      else
        let (err, w3) = insert_attendance (ins_fault e)
              \<lparr>a_id = new_id e, member_id = memberId, service_id = serviceId,
               a_service_date = service_date svc\<rparr> w2 in
        (case err of
           Some msg \<Rightarrow> (Returned (Error (''Failed to mark attendance: '' @ msg)), w3)
         | None \<Rightarrow> (Returned Success, revalidatePath ''/attendance'' w3)))"
proof -
  let ?w1 = "logged (SelectServiceDate serviceId) w"
  obtain existing w2 where c: "select_attendance_id (chk_fault e) memberId serviceId ?w1 = (existing, w2)"
    by (cases "select_attendance_id (chk_fault e) memberId serviceId ?w1")
  have d: "(data existing = None) = (chk_fault e \<noteq> None \<or> count_pair memberId serviceId (store w) \<noteq> 1)"
    using check_data[of "chk_fault e" memberId serviceId ?w1] c by simp
  have w2: "w2 = logged (SelectAttendanceId memberId serviceId) ?w1"
    using check_world[of "chk_fault e" memberId serviceId ?w1] c by simp
  show ?thesis
  proof (cases "data existing")
    case None
    with assms c d w2 show ?thesis
      by (auto simp add: markAttendance_def lookup_found ok_def Let_def)
  next
    case (Some rid)
    with assms c d w2 show ?thesis
      by (auto simp add: markAttendance_def lookup_found ok_def Let_def)
  qed
qed


lemma toggle_unfold:
  assumes "memberId \<noteq> []" "serviceId \<noteq> []"
    and "filter (\<lambda>x. s_id x = serviceId) (services (store w)) = [svc]"
    and "svc_fault e = None"
  shows "toggleAttendance e memberId serviceId w =
     (let w2 = logged (SelectAttendanceId memberId serviceId) (logged (SelectServiceDate serviceId) w) in
      if chk_fault e = None \<and> count_pair memberId serviceId (store w) = 1 then
        let (err, w3) = delete_attendance (del_fault e) memberId serviceId w2 in
        (case err of
           Some msg \<Rightarrow> (Returned (Error (''Failed to unmark attendance: '' @ msg)), w3)
         | None \<Rightarrow> (Returned Success, revalidatePath ''/attendance'' w3))
      else
        let (err, w3) = insert_attendance (ins_fault e)
              \<lparr>a_id = new_id e, member_id = memberId, service_id = serviceId,
               a_service_date = service_date svc\<rparr> w2 in
        (case err of
           Some msg \<Rightarrow> (Returned (Error (''Failed to mark attendance: '' @ msg)), w3)
         | None \<Rightarrow> (Returned Success, revalidatePath ''/attendance'' w3)))"
proof -
  let ?w1 = "logged (SelectServiceDate serviceId) w"
  obtain existing w2 where c: "select_attendance_id (chk_fault e) memberId serviceId ?w1 = (existing, w2)"
    by (cases "select_attendance_id (chk_fault e) memberId serviceId ?w1")
  have d: "(data existing = None) = (chk_fault e \<noteq> None \<or> count_pair memberId serviceId (store w) \<noteq> 1)"
    using check_data[of "chk_fault e" memberId serviceId ?w1] c by simp
  have w2: "w2 = logged (SelectAttendanceId memberId serviceId) ?w1"
    using check_world[of "chk_fault e" memberId serviceId ?w1] c by simp
  show ?thesis
  proof (cases "data existing")
    case None
    with assms c d w2 show ?thesis
      by (auto simp add: toggleAttendance_def lookup_found ok_def Let_def)
  next
    case (Some rid)
    with assms c d w2 show ?thesis
      by (auto simp add: toggleAttendance_def lookup_found ok_def Let_def)
  qed
qed

lemma filter_singleton:
  assumes "filter P xs = [x]"
  shows "x \<in> set xs" and "P x"
proof -
  have "x \<in> set (filter P xs)" using assms by simp
  then show "x \<in> set xs" and "P x" by simp_all
qed

lemma insert_ok:
  assumes "memberId \<in> set (map m_id (members (store w)))"
    and "filter (\<lambda>x. s_id x = serviceId) (services (store w)) = [svc]"
    and "member_id row = memberId" "service_id row = serviceId"
  shows "insert_attendance None row w =
     (None, \<lparr>store = (store w)\<lparr>attendance_records := attendance_records (store w) @ [row]\<rparr>,
             calls = calls w @ [InsertAttendance memberId serviceId]\<rparr>)"
proof -
  have "serviceId \<in> set (map s_id (services (store w)))"
    using filter_singleton[OF assms(2)] by force
  with assms show ?thesis
    by (simp add: insert_attendance_def Let_def logged_def)
qed

lemma delete_ok:
  "delete_attendance None memberId serviceId w =
     (None, \<lparr>store = (store w)\<lparr>attendance_records :=
                filter (\<lambda>r. \<not> is_pair memberId serviceId r) (attendance_records (store w))\<rparr>,
             calls = calls w @ [DeleteAttendance memberId serviceId]\<rparr>)"
  by (simp add: delete_attendance_def Let_def logged_def)

lemma count_pair_append:
  "count_pair m s (d\<lparr>attendance_records := attendance_records d @ [r]\<rparr>) =
     count_pair m s d + (if is_pair m s r then 1 else 0)"
  by (simp add: count_pair_def)

text \<open>
  Claim C1. For a member and a service of the store with no attendance row for the
  pair, two calls of \<open>markAttendance\<close> in sequence (the store answering every query)
  leave exactly one row for the pair: the first call succeeds, the second returns
  the error \<open>Attendance already marked for this member for this service\<close> and leaves
  the store as it was.
\<close>

theorem C1_mark_twice:
  assumes ids: "memberId \<noteq> []" "serviceId \<noteq> []"
    and mem: "memberId \<in> set (map m_id (members (store w)))"
    and svc: "filter (\<lambda>x. s_id x = serviceId) (services (store w)) = [svc]"
    and none: "count_pair memberId serviceId (store w) = 0"
    and e1: "svc_fault e1 = None" "chk_fault e1 = None" "ins_fault e1 = None"
    and e2: "svc_fault e2 = None" "chk_fault e2 = None"
    and m1: "markAttendance e1 (form memberId serviceId) w = (r1, w1)"
    and m2: "markAttendance e2 (form memberId serviceId) w1 = (r2, w2)"
  shows "r1 = Returned Success
       \<and> r2 = Returned (Error ''Attendance already marked for this member for this service'')
       \<and> store w2 = store w1
       \<and> count_pair memberId serviceId (store w2) = 1"
proof -
  let ?row = "\<lparr>a_id = new_id e1, member_id = memberId, service_id = serviceId,
               a_service_date = service_date svc\<rparr>"
  let ?wa = "logged (SelectAttendanceId memberId serviceId) (logged (SelectServiceDate serviceId) w)"
  have ins: "insert_attendance None ?row ?wa =
     (None, \<lparr>store = (store ?wa)\<lparr>attendance_records := attendance_records (store ?wa) @ [?row]\<rparr>,
             calls = calls ?wa @ [InsertAttendance memberId serviceId]\<rparr>)"
    by (rule insert_ok) (use mem svc in simp_all)
  have first: "markAttendance e1 (form memberId serviceId) w =
     (Returned Success, revalidatePath ''/attendance''
        \<lparr>store = (store w)\<lparr>attendance_records := attendance_records (store w) @ [?row]\<rparr>,
         calls = calls ?wa @ [InsertAttendance memberId serviceId]\<rparr>)"
    using mark_unfold[OF ids svc e1(1)] none e1 ins by (simp add: Let_def)
  with m1 have r1: "r1 = Returned Success"
    and s1: "store w1 = (store w)\<lparr>attendance_records := attendance_records (store w) @ [?row]\<rparr>"
    by (auto simp: revalidatePath_def)
  have svc1: "filter (\<lambda>x. s_id x = serviceId) (services (store w1)) = [svc]"
    using svc s1 by simp
  have one: "count_pair memberId serviceId (store w1) = 1"
    using none s1 by (simp add: count_pair_append is_pair_def)
  have second: "markAttendance e2 (form memberId serviceId) w1 =
     (Returned (Error ''Attendance already marked for this member for this service''),
      logged (SelectAttendanceId memberId serviceId) (logged (SelectServiceDate serviceId) w1))"
    using mark_unfold[OF ids svc1 e2(1)] one e2 by (simp add: Let_def)
  with m2 have r2: "r2 = Returned (Error ''Attendance already marked for this member for this service'')"
    and s2: "store w2 = store w1"
    by auto
  from r1 r2 s2 one show ?thesis by simp
qed


theorem C1_mark_twice_witness:
  "''m1'' \<in> set (map m_id (members (store ex_world)))
   \<and> filter (\<lambda>x. s_id x = ''s1'') (services (store ex_world)) = [ex_service]
   \<and> count_pair ''m1'' ''s1'' (store ex_world) = 0
   \<and> fst (markAttendance ex_env (form ''m1'' ''s1'') ex_world) = Returned Success
   \<and> fst (markAttendance ex_env (form ''m1'' ''s1'')
            (snd (markAttendance ex_env (form ''m1'' ''s1'') ex_world))) =
       Returned (Error ''Attendance already marked for this member for this service'')
   \<and> count_pair ''m1'' ''s1''
        (store (snd (markAttendance ex_env (form ''m1'' ''s1'')
            (snd (markAttendance ex_env (form ''m1'' ''s1'') ex_world))))) = 1"
proof -
  have mem: "''m1'' \<in> set (map m_id (members (store ex_world)))"
    by (simp add: ex_world_def ex_member_def)
  have svc: "filter (\<lambda>x. s_id x = ''s1'') (services (store ex_world)) = [ex_service]"
    by (simp add: ex_world_def ex_service_def)
  have none: "count_pair ''m1'' ''s1'' (store ex_world) = 0"
    by (simp add: ex_world_def count_pair_def)
  have e: "svc_fault ex_env = None" "chk_fault ex_env = None" "ins_fault ex_env = None"
    by (simp_all add: ex_env_def)
  show ?thesis
    using C1_mark_twice[OF _ _ mem svc none e e(1) e(2) surjective_pairing surjective_pairing]
      mem svc none by blast
qed

lemma filter_neg_id: "length (filter P xs) = 0 \<Longrightarrow> filter (\<lambda>x. \<not> P x) xs = xs"
  by (induction xs) (auto split: if_splits)

lemma toggle_absent:
  assumes ids: "memberId \<noteq> []" "serviceId \<noteq> []"
    and mem: "memberId \<in> set (map m_id (members (store w)))"
    and svc: "filter (\<lambda>x. s_id x = serviceId) (services (store w)) = [svc]"
    and e: "svc_fault e = None" "chk_fault e = None" "ins_fault e = None"
    and none: "count_pair memberId serviceId (store w) = 0"
  shows "toggleAttendance e memberId serviceId w =
     (Returned Success,
      \<lparr>store = (store w)\<lparr>attendance_records := attendance_records (store w) @
                 [\<lparr>a_id = new_id e, member_id = memberId, service_id = serviceId,
                   a_service_date = service_date svc\<rparr>]\<rparr>,
       calls = calls w @ [SelectServiceDate serviceId, SelectAttendanceId memberId serviceId,
                 InsertAttendance memberId serviceId, RevalidatePath ''/attendance'']\<rparr>)"
proof -
  let ?row = "\<lparr>a_id = new_id e, member_id = memberId, service_id = serviceId,
               a_service_date = service_date svc\<rparr>"
  let ?wa = "logged (SelectAttendanceId memberId serviceId) (logged (SelectServiceDate serviceId) w)"
  have ins: "insert_attendance None ?row ?wa =
     (None, \<lparr>store = (store ?wa)\<lparr>attendance_records := attendance_records (store ?wa) @ [?row]\<rparr>,
             calls = calls ?wa @ [InsertAttendance memberId serviceId]\<rparr>)"
    by (rule insert_ok) (use mem svc in simp_all)
  show ?thesis
    using toggle_unfold[OF ids svc e(1)] none e ins
    by (simp add: Let_def revalidatePath_def logged_def)
qed

lemma toggle_present:
  assumes ids: "memberId \<noteq> []" "serviceId \<noteq> []"
    and svc: "filter (\<lambda>x. s_id x = serviceId) (services (store w)) = [svc]"
    and e: "svc_fault e = None" "chk_fault e = None" "del_fault e = None"
    and one: "count_pair memberId serviceId (store w) = 1"
  shows "toggleAttendance e memberId serviceId w =
     (Returned Success,
      \<lparr>store = (store w)\<lparr>attendance_records :=
                 filter (\<lambda>r. \<not> is_pair memberId serviceId r) (attendance_records (store w))\<rparr>,
       calls = calls w @ [SelectServiceDate serviceId, SelectAttendanceId memberId serviceId,
                 DeleteAttendance memberId serviceId, RevalidatePath ''/attendance'']\<rparr>)"
  using toggle_unfold[OF ids svc e(1)] one e
  by (simp add: Let_def delete_ok revalidatePath_def logged_def)

lemma toggle_twice:
  assumes ids: "memberId \<noteq> []" "serviceId \<noteq> []"
    and mem: "memberId \<in> set (map m_id (members (store w)))"
    and svc: "filter (\<lambda>x. s_id x = serviceId) (services (store w)) = [svc]"
    and e1: "no_faults e1" and e2: "no_faults e2"
    and none: "count_pair memberId serviceId (store w) = 0"
  shows "store (snd (toggleAttendance e2 memberId serviceId
                  (snd (toggleAttendance e1 memberId serviceId w)))) = store w"
proof -
  let ?row = "\<lparr>a_id = new_id e1, member_id = memberId, service_id = serviceId,
               a_service_date = service_date svc\<rparr>"
  let ?w1 = "snd (toggleAttendance e1 memberId serviceId w)"
  have s1: "store ?w1 = (store w)\<lparr>attendance_records := attendance_records (store w) @ [?row]\<rparr>"
    using toggle_absent[OF ids mem svc _ _ _ none, of e1] e1 by (simp add: no_faults_def)
  have svc1: "filter (\<lambda>x. s_id x = serviceId) (services (store ?w1)) = [svc]"
    using svc s1 by simp
  have one: "count_pair memberId serviceId (store ?w1) = 1"
    using none s1 by (simp add: count_pair_append is_pair_def)
  have "store (snd (toggleAttendance e2 memberId serviceId ?w1)) =
          (store ?w1)\<lparr>attendance_records :=
             filter (\<lambda>r. \<not> is_pair memberId serviceId r) (attendance_records (store ?w1))\<rparr>"
    using toggle_present[OF ids svc1 _ _ _ one, of e2] e2 by (simp add: no_faults_def)
  also have "\<dots> = (store w)\<lparr>attendance_records :=
             filter (\<lambda>r. \<not> is_pair memberId serviceId r) (attendance_records (store w))\<rparr>"
    by (simp add: s1 is_pair_def)
  also have "\<dots> = store w"
    using none filter_neg_id[of "is_pair memberId serviceId" "attendance_records (store w)"]
    by (simp add: count_pair_def)
  finally show ?thesis .
qed

text \<open>
  Claim C2. For a member and an existing service (the store answering every query),
  \<open>toggleAttendance\<close> appends a row carrying the service's date when the pair has no
  row, and removes the pair's row when it has one; from a store with no row for the
  pair, two calls in sequence give back the same store, and so do four.
\<close>

theorem C2_toggle:
  assumes ids: "memberId \<noteq> []" "serviceId \<noteq> []"
    and mem: "memberId \<in> set (map m_id (members (store w)))"
    and svc: "filter (\<lambda>x. s_id x = serviceId) (services (store w)) = [svc]"
    and e: "no_faults e1" "no_faults e2" "no_faults e3" "no_faults e4"
  shows "(count_pair memberId serviceId (store w) = 0 \<longrightarrow>
            fst (toggleAttendance e1 memberId serviceId w) = Returned Success
          \<and> store (snd (toggleAttendance e1 memberId serviceId w)) =
              (store w)\<lparr>attendance_records := attendance_records (store w) @
                 [\<lparr>a_id = new_id e1, member_id = memberId, service_id = serviceId,
                   a_service_date = service_date svc\<rparr>]\<rparr>)
       \<and> (count_pair memberId serviceId (store w) = 1 \<longrightarrow>
            fst (toggleAttendance e1 memberId serviceId w) = Returned Success
          \<and> store (snd (toggleAttendance e1 memberId serviceId w)) =
              (store w)\<lparr>attendance_records :=
                 filter (\<lambda>r. \<not> is_pair memberId serviceId r) (attendance_records (store w))\<rparr>
          \<and> count_pair memberId serviceId (store (snd (toggleAttendance e1 memberId serviceId w))) = 0)
       \<and> (count_pair memberId serviceId (store w) = 0 \<longrightarrow>
            store (snd (toggleAttendance e2 memberId serviceId
                    (snd (toggleAttendance e1 memberId serviceId w)))) = store w
          \<and> store (snd (toggleAttendance e4 memberId serviceId
                    (snd (toggleAttendance e3 memberId serviceId
                      (snd (toggleAttendance e2 memberId serviceId
                        (snd (toggleAttendance e1 memberId serviceId w)))))))) = store w)"
proof (intro conjI impI)
  assume none: "count_pair memberId serviceId (store w) = 0"
  have t: "toggleAttendance e1 memberId serviceId w =
     (Returned Success,
      \<lparr>store = (store w)\<lparr>attendance_records := attendance_records (store w) @
                 [\<lparr>a_id = new_id e1, member_id = memberId, service_id = serviceId,
                   a_service_date = service_date svc\<rparr>]\<rparr>,
       calls = calls w @ [SelectServiceDate serviceId, SelectAttendanceId memberId serviceId,
                 InsertAttendance memberId serviceId, RevalidatePath ''/attendance'']\<rparr>)"
    using toggle_absent[OF ids mem svc _ _ _ none, of e1] e(1) by (simp add: no_faults_def)
  show "fst (toggleAttendance e1 memberId serviceId w) = Returned Success"
    by (simp add: t)
  show "store (snd (toggleAttendance e1 memberId serviceId w)) =
              (store w)\<lparr>attendance_records := attendance_records (store w) @
                 [\<lparr>a_id = new_id e1, member_id = memberId, service_id = serviceId,
                   a_service_date = service_date svc\<rparr>]\<rparr>"
    by (simp add: t)
  let ?w2 = "snd (toggleAttendance e2 memberId serviceId
                    (snd (toggleAttendance e1 memberId serviceId w)))"
  show two: "store ?w2 = store w"
    by (rule toggle_twice[OF ids mem svc e(1) e(2) none])
  have "store (snd (toggleAttendance e4 memberId serviceId
                 (snd (toggleAttendance e3 memberId serviceId ?w2)))) = store ?w2"
    by (rule toggle_twice[OF ids _ _ e(3) e(4)]) (use mem svc none two in simp_all)
  then show "store (snd (toggleAttendance e4 memberId serviceId
                 (snd (toggleAttendance e3 memberId serviceId ?w2)))) = store w"
    using two by simp
next
  assume one: "count_pair memberId serviceId (store w) = 1"
  have t: "toggleAttendance e1 memberId serviceId w =
     (Returned Success,
      \<lparr>store = (store w)\<lparr>attendance_records :=
                 filter (\<lambda>r. \<not> is_pair memberId serviceId r) (attendance_records (store w))\<rparr>,
       calls = calls w @ [SelectServiceDate serviceId, SelectAttendanceId memberId serviceId,
                 DeleteAttendance memberId serviceId, RevalidatePath ''/attendance'']\<rparr>)"
    using toggle_present[OF ids svc _ _ _ one, of e1] e(1) by (simp add: no_faults_def)
  show "fst (toggleAttendance e1 memberId serviceId w) = Returned Success"
    by (simp add: t)
  show "store (snd (toggleAttendance e1 memberId serviceId w)) =
              (store w)\<lparr>attendance_records :=
                 filter (\<lambda>r. \<not> is_pair memberId serviceId r) (attendance_records (store w))\<rparr>"
    by (simp add: t)
  show "count_pair memberId serviceId (store (snd (toggleAttendance e1 memberId serviceId w))) = 0"
    by (simp add: t count_pair_def)
qed


theorem C2_toggle_witness:
  "fst (toggleAttendance ex_env ''m1'' ''s1'' ex_world) = Returned Success
   \<and> attendance_records (store (snd (toggleAttendance ex_env ''m1'' ''s1'' ex_world))) =
       [\<lparr>a_id = ''a2'', member_id = ''m1'', service_id = ''s1'', a_service_date = ''2024-01-07''\<rparr>]
   \<and> store (snd (toggleAttendance ex_env ''m1'' ''s1''
                (snd (toggleAttendance ex_env ''m1'' ''s1'' ex_world)))) = store ex_world
   \<and> store (snd (toggleAttendance ex_env ''m1'' ''s1''
                (snd (toggleAttendance ex_env ''m1'' ''s1''
                  (snd (toggleAttendance ex_env ''m1'' ''s1''
                    (snd (toggleAttendance ex_env ''m1'' ''s1'' ex_world)))))))) = store ex_world
   \<and> fst (toggleAttendance ex_env ''m1'' ''s1'' ex_marked) = Returned Success
   \<and> attendance_records (store (snd (toggleAttendance ex_env ''m1'' ''s1'' ex_marked))) = []"
proof -
  have nf: "no_faults ex_env"
    by (simp add: no_faults_def ex_env_def)
  have absent: "count_pair ''m1'' ''s1'' (store ex_world) = 0"
    by (simp add: ex_world_def count_pair_def)
  have present: "count_pair ''m1'' ''s1'' (store ex_marked) = 1"
    by (simp add: ex_marked_def ex_row_def count_pair_def is_pair_def)
  have a: "fst (toggleAttendance ex_env ''m1'' ''s1'' ex_world) = Returned Success
     \<and> store (snd (toggleAttendance ex_env ''m1'' ''s1'' ex_world)) =
         (store ex_world)\<lparr>attendance_records := attendance_records (store ex_world) @
            [\<lparr>a_id = new_id ex_env, member_id = ''m1'', service_id = ''s1'',
              a_service_date = service_date ex_service\<rparr>]\<rparr>
     \<and> store (snd (toggleAttendance ex_env ''m1'' ''s1''
                (snd (toggleAttendance ex_env ''m1'' ''s1'' ex_world)))) = store ex_world
     \<and> store (snd (toggleAttendance ex_env ''m1'' ''s1''
                (snd (toggleAttendance ex_env ''m1'' ''s1''
                  (snd (toggleAttendance ex_env ''m1'' ''s1''
                    (snd (toggleAttendance ex_env ''m1'' ''s1'' ex_world)))))))) = store ex_world"
    using C2_toggle[of "''m1''" "''s1''" ex_world ex_service ex_env ex_env ex_env ex_env] nf absent
    by (simp add: ex_world_def ex_member_def ex_service_def)
  have p: "fst (toggleAttendance ex_env ''m1'' ''s1'' ex_marked) = Returned Success
     \<and> store (snd (toggleAttendance ex_env ''m1'' ''s1'' ex_marked)) =
         (store ex_marked)\<lparr>attendance_records :=
            filter (\<lambda>r. \<not> is_pair ''m1'' ''s1'' r) (attendance_records (store ex_marked))\<rparr>"
    using C2_toggle[of "''m1''" "''s1''" ex_marked ex_service ex_env ex_env ex_env ex_env] nf present
    by (simp add: ex_marked_def ex_member_def ex_service_def)
  from a have a2: "attendance_records (store (snd (toggleAttendance ex_env ''m1'' ''s1'' ex_world))) =
       [\<lparr>a_id = ''a2'', member_id = ''m1'', service_id = ''s1'', a_service_date = ''2024-01-07''\<rparr>]"
    by (simp add: ex_world_def ex_env_def ex_service_def)
  from p have p2: "attendance_records (store (snd (toggleAttendance ex_env ''m1'' ''s1'' ex_marked))) = []"
    by (simp add: ex_marked_def ex_row_def is_pair_def)
  from a a2 p p2 show ?thesis by blast
qed

lemma insert_err:
  "fst (insert_attendance fault row w) =
     (case fault of
        Some msg \<Rightarrow> Some msg
      | None \<Rightarrow>
          if member_id row \<in> set (map m_id (members (store w)))
             \<and> service_id row \<in> set (map s_id (services (store w)))
          then None else Some fk_msg)"
  by (simp add: insert_attendance_def Let_def split: option.splits)

lemma fst_insert_case:
  "fst (case insert_attendance fault row w of (err, w3) \<Rightarrow>
          (case err of Some msg \<Rightarrow> (Returned (Error (p @ msg)), w3)
                     | None \<Rightarrow> (Returned Success, g w3))) =
     (case fst (insert_attendance fault row w) of
        Some msg \<Rightarrow> Returned (Error (p @ msg))
      | None \<Rightarrow> Returned Success)"
  by (cases "insert_attendance fault row w") (simp split: option.splits)

text \<open>
  Claim C8. With both identifiers non-empty, when the service lookup fails or no
  service has the identifier, \<open>markAttendance\<close> and \<open>toggleAttendance\<close> return an error
  whose message starts with \<open>Failed to fetch service details\<close>, and the store is
  unchanged.
\<close>

theorem C8_service_lookup_fails:
  assumes ids: "memberId \<noteq> []" "serviceId \<noteq> []"
    and lookup: "svc_fault e \<noteq> None
                 \<or> filter (\<lambda>x. s_id x = serviceId) (services (store w)) = []"
  shows "(\<exists>msg. fst (markAttendance e (form memberId serviceId) w) = Returned (Error msg)
              \<and> prefix ''Failed to fetch service details'' msg)
       \<and> store (snd (markAttendance e (form memberId serviceId) w)) = store w
       \<and> (\<exists>msg. fst (toggleAttendance e memberId serviceId w) = Returned (Error msg)
              \<and> prefix ''Failed to fetch service details'' msg)
       \<and> store (snd (toggleAttendance e memberId serviceId w)) = store w"
proof -
  obtain err where sel: "select_service_date (svc_fault e) serviceId w =
      (failed err, logged (SelectServiceDate serviceId) w)"
  proof (cases "svc_fault e")
    case None
    with lookup that[of single_msg] show ?thesis by (simp add: lookup_absent)
  next
    case (Some msg)
    with that[of msg] show ?thesis by (simp add: lookup_fault)
  qed
  have m: "markAttendance e (form memberId serviceId) w =
      (Returned (Error (''Failed to fetch service details: '' @ err)),
       logged (SelectServiceDate serviceId) w)"
    using ids sel by (simp add: markAttendance_def failed_def)
  have t: "toggleAttendance e memberId serviceId w =
      (Returned (Error (''Failed to fetch service details: '' @ err)),
       logged (SelectServiceDate serviceId) w)"
    using ids sel by (simp add: toggleAttendance_def failed_def)
  have p: "prefix ''Failed to fetch service details'' (''Failed to fetch service details: '' @ err)"
    by simp
  show ?thesis
    using p by (simp only: m t fst_conv snd_conv store_logged) blast
qed

theorem C8_service_lookup_fails_witness:
  "fst (markAttendance ex_env (form ''m1'' ''s9'') ex_marked) =
     Returned (Error (''Failed to fetch service details: '' @ single_msg))
   \<and> store (snd (markAttendance ex_env (form ''m1'' ''s9'') ex_marked)) = store ex_marked
   \<and> fst (toggleAttendance (ex_env\<lparr>svc_fault := Some ''fetch failed''\<rparr>) ''m1'' ''s1'' ex_marked) =
     Returned (Error ''Failed to fetch service details: fetch failed'')
   \<and> store (snd (toggleAttendance (ex_env\<lparr>svc_fault := Some ''fetch failed''\<rparr>) ''m1'' ''s1''
                ex_marked)) = store ex_marked"
proof -
  have a: "store (snd (markAttendance ex_env (form ''m1'' ''s9'') ex_marked)) = store ex_marked"
    using C8_service_lookup_fails[of "''m1''" "''s9''" ex_env ex_marked]
    by (simp add: ex_marked_def ex_service_def)
  have b: "store (snd (toggleAttendance (ex_env\<lparr>svc_fault := Some ''fetch failed''\<rparr>) ''m1'' ''s1''
                ex_marked)) = store ex_marked"
    using C8_service_lookup_fails[of "''m1''" "''s1''" "ex_env\<lparr>svc_fault := Some ''fetch failed''\<rparr>" ex_marked]
    by simp
  have c: "fst (markAttendance ex_env (form ''m1'' ''s9'') ex_marked) =
     Returned (Error (''Failed to fetch service details: '' @ single_msg))"
    by (simp add: markAttendance_def select_service_date_def ex_env_def ex_marked_def
        ex_service_def failed_def)
  have d: "fst (toggleAttendance (ex_env\<lparr>svc_fault := Some ''fetch failed''\<rparr>) ''m1'' ''s1'' ex_marked) =
     Returned (Error ''Failed to fetch service details: fetch failed'')"
    by (simp add: toggleAttendance_def select_service_date_def failed_def)
  from a b c d show ?thesis by blast
qed

text \<open>
  Claim C10. When the existence check comes back with an error (the lookup of the
  service having succeeded), \<open>markAttendance\<close> and \<open>toggleAttendance\<close> both go on to the
  insert and their result is the insert's alone: the check's error is never reported,
  and the value returned is the one returned when the check is answered on a store
  holding no row for the pair.
\<close>

theorem C10_check_failure_discarded:
  assumes ids: "memberId \<noteq> []" "serviceId \<noteq> []"
    and svc: "filter (\<lambda>x. s_id x = serviceId) (services (store w)) = [svc]"
    and ok: "svc_fault e = None"
    and chk: "error (fst (select_attendance_id (chk_fault e) memberId serviceId
                            (logged (SelectServiceDate serviceId) w))) \<noteq> None"
  shows "markAttendance e (form memberId serviceId) w =
           (let (err, w3) = insert_attendance (ins_fault e)
                  \<lparr>a_id = new_id e, member_id = memberId, service_id = serviceId,
                   a_service_date = service_date svc\<rparr>
                  (logged (SelectAttendanceId memberId serviceId)
                     (logged (SelectServiceDate serviceId) w)) in
            case err of
              Some m \<Rightarrow> (Returned (Error (''Failed to mark attendance: '' @ m)), w3)
            | None \<Rightarrow> (Returned Success, revalidatePath ''/attendance'' w3))
       \<and> toggleAttendance e memberId serviceId w =
           markAttendance e (form memberId serviceId) w
       \<and> fst (markAttendance e (form memberId serviceId) w) =
           fst (markAttendance (e\<lparr>chk_fault := None\<rparr>) (form memberId serviceId)
                  (w\<lparr>store := (store w)\<lparr>attendance_records :=
                       filter (\<lambda>r. \<not> is_pair memberId serviceId r)
                         (attendance_records (store w))\<rparr>\<rparr>))
       \<and> fst (toggleAttendance e memberId serviceId w) =
           fst (toggleAttendance (e\<lparr>chk_fault := None\<rparr>) memberId serviceId
                  (w\<lparr>store := (store w)\<lparr>attendance_records :=
                       filter (\<lambda>r. \<not> is_pair memberId serviceId r)
                         (attendance_records (store w))\<rparr>\<rparr>))"
proof -
  let ?row = "\<lparr>a_id = new_id e, member_id = memberId, service_id = serviceId,
               a_service_date = service_date svc\<rparr>"
  let ?w' = "w\<lparr>store := (store w)\<lparr>attendance_records :=
                       filter (\<lambda>r. \<not> is_pair memberId serviceId r)
                         (attendance_records (store w))\<rparr>\<rparr>"
  let ?e' = "e\<lparr>chk_fault := None\<rparr>"
  have m: "markAttendance e (form memberId serviceId) w =
           (let (err, w3) = insert_attendance (ins_fault e) ?row
                  (logged (SelectAttendanceId memberId serviceId)
                     (logged (SelectServiceDate serviceId) w)) in
            case err of
              Some m \<Rightarrow> (Returned (Error (''Failed to mark attendance: '' @ m)), w3)
            | None \<Rightarrow> (Returned Success, revalidatePath ''/attendance'' w3))"
    using mark_unfold[OF ids svc ok] chk by (auto simp add: Let_def check_error)
  have t: "toggleAttendance e memberId serviceId w = markAttendance e (form memberId serviceId) w"
    using toggle_unfold[OF ids svc ok] chk m by (auto simp add: Let_def check_error)
  have svc': "filter (\<lambda>x. s_id x = serviceId) (services (store ?w')) = [svc]"
    using svc by simp
  have c0: "count_pair memberId serviceId (store ?w') = 0"
    by (simp add: count_pair_def)
  have m': "fst (markAttendance ?e' (form memberId serviceId) ?w') =
            fst (markAttendance e (form memberId serviceId) w)"
    using mark_unfold[OF ids svc', of ?e'] ok c0
    by (auto simp add: m Let_def fst_insert_case insert_err split: option.splits)
  have t': "fst (toggleAttendance ?e' memberId serviceId ?w') =
            fst (markAttendance e (form memberId serviceId) w)"
    using toggle_unfold[OF ids svc', of ?e'] ok c0
    by (auto simp add: m Let_def fst_insert_case insert_err split: option.splits)
  show ?thesis
    using m t m' t' by simp
qed


theorem C10_check_failure_discarded_witness:
  "fst (markAttendance (ex_env\<lparr>chk_fault := Some ''fetch failed''\<rparr>) (form ''m1'' ''s1'') ex_marked)
     = Returned Success
   \<and> toggleAttendance (ex_env\<lparr>chk_fault := Some ''fetch failed''\<rparr>) ''m1'' ''s1'' ex_marked =
       markAttendance (ex_env\<lparr>chk_fault := Some ''fetch failed''\<rparr>) (form ''m1'' ''s1'') ex_marked
   \<and> count_pair ''m1'' ''s1''
        (store (snd (markAttendance (ex_env\<lparr>chk_fault := Some ''fetch failed''\<rparr>)
                       (form ''m1'' ''s1'') ex_marked))) = 2"
proof -
  let ?e = "ex_env\<lparr>chk_fault := Some ''fetch failed''\<rparr>"
  have chk: "error (fst (select_attendance_id (chk_fault ?e) ''m1'' ''s1''
               (logged (SelectServiceDate ''s1'') ex_marked))) \<noteq> None"
    by (simp add: select_attendance_id_def failed_def)
  have svc: "filter (\<lambda>x. s_id x = ''s1'') (services (store ex_marked)) = [ex_service]"
    by (simp add: ex_marked_def ex_service_def)
  have ok: "svc_fault ?e = None"
    by (simp add: ex_env_def)
  note r = C10_check_failure_discarded[OF _ _ svc ok chk]
  have m: "markAttendance ?e (form ''m1'' ''s1'') ex_marked =
      (Returned Success,
       \<lparr>store = \<lparr>members = [ex_member], services = [ex_service],
                 attendance_records = [ex_row,
                   \<lparr>a_id = ''a2'', member_id = ''m1'', service_id = ''s1'',
                    a_service_date = ''2024-01-07''\<rparr>]\<rparr>,
        calls = [SelectServiceDate ''s1'', SelectAttendanceId ''m1'' ''s1'',
                 InsertAttendance ''m1'' ''s1'', RevalidatePath ''/attendance'']\<rparr>)"
    using r
    by (simp add: insert_attendance_def Let_def logged_def revalidatePath_def
        ex_marked_def ex_env_def ex_service_def ex_member_def)
  have t: "toggleAttendance ?e ''m1'' ''s1'' ex_marked = markAttendance ?e (form ''m1'' ''s1'') ex_marked"
    using r by simp
  from m t show ?thesis
    by (simp add: count_pair_def is_pair_def ex_row_def)
qed

section \<open>Validation\<close>

text \<open>
  Claim C4. With an empty (or, for the form, missing) member or service identifier,
  \<open>markAttendance\<close> and \<open>toggleAttendance\<close> return the error
  \<open>Member and service are required\<close> and hand back the world they were given: the
  store is unchanged and the log of store calls has no new entry.
\<close>

theorem C4_ids_required:
  "(memberId = [] \<or> serviceId = [] \<longrightarrow>
      toggleAttendance e memberId serviceId w =
        (Returned (Error ''Member and service are required''), w))
   \<and> (formData ''memberId'' \<in> {None, Some []} \<or> formData ''serviceId'' \<in> {None, Some []} \<longrightarrow>
      markAttendance e formData w =
        (Returned (Error ''Member and service are required''), w))"
  by (auto simp: toggleAttendance_def markAttendance_def split: option.splits)

theorem C4_ids_required_witness:
  "toggleAttendance ex_env [] ''s1'' ex_marked =
     (Returned (Error ''Member and service are required''), ex_marked)
   \<and> markAttendance ex_env (form ''m1'' []) ex_marked =
     (Returned (Error ''Member and service are required''), ex_marked)"
  using C4_ids_required[of "[]" "''s1''" ex_env ex_marked "form ''m1'' []"]
  by (simp add: form_def)

section \<open>The one-row-per-pair invariant\<close>

text \<open>
  When the existence check is answered (no store failure on that query), both actions
  keep the invariant, whatever the other queries do.
\<close>

lemma distinct_count_le_one:
  "distinct (map (\<lambda>r. (member_id r, service_id r)) rs) \<Longrightarrow>
   length (filter (is_pair m s) rs) \<le> 1"
  by (induction rs) (auto simp: is_pair_def image_iff filter_empty_conv)

lemma count_zero_fresh:
  "length (filter (is_pair m s) rs) = 0 \<Longrightarrow> (m, s) \<notin> set (map (\<lambda>r. (member_id r, service_id r)) rs)"
  by (auto simp: filter_empty_conv is_pair_def)

lemma at_most_one_insert:
  assumes "at_most_one d" "count_pair m s d \<noteq> 1" "member_id row = m" "service_id row = s"
  shows "at_most_one (d\<lparr>attendance_records := attendance_records d @ [row]\<rparr>)"
proof -
  have "count_pair m s d \<le> 1"
    using assms(1) distinct_count_le_one by (simp add: at_most_one_def count_pair_def)
  with assms(2) have "count_pair m s d = 0" by simp
  then have "(m, s) \<notin> set (map (\<lambda>r. (member_id r, service_id r)) (attendance_records d))"
    using count_zero_fresh by (simp add: count_pair_def)
  with assms show ?thesis by (simp add: at_most_one_def)
qed

lemma at_most_one_delete:
  assumes "at_most_one d"
  shows "at_most_one (d\<lparr>attendance_records := filter P (attendance_records d)\<rparr>)"
  using assms by (simp add: at_most_one_def distinct_map_filter)

lemma insert_store:
  "store (snd (insert_attendance fault row w)) = store w
   \<or> store (snd (insert_attendance fault row w)) =
       (store w)\<lparr>attendance_records := attendance_records (store w) @ [row]\<rparr>"
  by (simp add: insert_attendance_def Let_def split: option.splits)

lemma delete_store:
  "store (snd (delete_attendance fault m s w)) = store w
   \<or> store (snd (delete_attendance fault m s w)) =
       (store w)\<lparr>attendance_records := filter (\<lambda>r. \<not> is_pair m s r) (attendance_records (store w))\<rparr>"
  by (simp add: delete_attendance_def Let_def split: option.splits)

lemma mark_store:
  assumes "chk_fault e = None"
  shows "store (snd (markAttendance e formData w)) = store w
    \<or> (\<exists>row. count_pair (member_id row) (service_id row) (store w) \<noteq> 1
          \<and> store (snd (markAttendance e formData w)) =
              (store w)\<lparr>attendance_records := attendance_records (store w) @ [row]\<rparr>)"
proof (cases "formData ''memberId''")
  case None
  then show ?thesis by (simp add: markAttendance_def)
next
  case m: (Some memberId)
  show ?thesis
  proof (cases "formData ''serviceId''")
    case None
    with m show ?thesis by (simp add: markAttendance_def)
  next
    case s: (Some serviceId)
    show ?thesis
    proof (cases "memberId = [] \<or> serviceId = []")
      case True
      with m s show ?thesis by (auto simp: markAttendance_def)
    next
      case ids: False
      obtain svc w1 where sel: "select_service_date (svc_fault e) serviceId w = (svc, w1)"
        by (cases "select_service_date (svc_fault e) serviceId w")
      then have w1: "w1 = logged (SelectServiceDate serviceId) w"
        by (simp add: select_service_date_def)
      show ?thesis
      proof (cases "error svc = None \<and> data svc \<noteq> None")
        case False
        with m s ids sel w1 show ?thesis
          by (auto simp: markAttendance_def split: option.splits)
      next
        case True
        then obtain d where d: "error svc = None" "data svc = Some d" by auto
        let ?w2 = "logged (SelectAttendanceId memberId serviceId) w1"
        let ?row = "\<lparr>a_id = new_id e, member_id = memberId, service_id = serviceId, a_service_date = d\<rparr>"
        obtain existing w2' where chk:
          "select_attendance_id (chk_fault e) memberId serviceId w1 = (existing, w2')"
          by (cases "select_attendance_id (chk_fault e) memberId serviceId w1")
        have w2': "w2' = ?w2"
          using check_world[of "chk_fault e" memberId serviceId w1] chk by simp
        have ex: "(data existing = None) = (count_pair memberId serviceId (store w) \<noteq> 1)"
          using check_data[of "chk_fault e" memberId serviceId w1] chk assms w1 by simp
        show ?thesis
        proof (cases "data existing")
          case (Some rid)
          with m s ids sel d w1 chk w2' show ?thesis
            by (simp add: markAttendance_def)
        next
          case None
          have "store (snd (markAttendance e formData w)) =
                  store (snd (insert_attendance (ins_fault e) ?row ?w2))"
            using m s ids sel d chk w2' None w1
            by (cases "insert_attendance (ins_fault e) ?row ?w2")
               (auto simp: markAttendance_def revalidatePath_def split: option.splits)
          moreover have "count_pair (member_id ?row) (service_id ?row) (store w) \<noteq> 1"
            using None ex by simp
          ultimately show ?thesis
            using insert_store[of "ins_fault e" ?row ?w2] w1
            by (elim disjE) (simp, intro disjI2 exI[of _ ?row], simp)
        qed
      qed
    qed
  qed
qed


lemma toggle_store:
  assumes "chk_fault e = None"
  shows "store (snd (toggleAttendance e memberId serviceId w)) = store w
    \<or> store (snd (toggleAttendance e memberId serviceId w)) =
         (store w)\<lparr>attendance_records :=
            filter (\<lambda>r. \<not> is_pair memberId serviceId r) (attendance_records (store w))\<rparr>
    \<or> (\<exists>row. count_pair (member_id row) (service_id row) (store w) \<noteq> 1
          \<and> store (snd (toggleAttendance e memberId serviceId w)) =
              (store w)\<lparr>attendance_records := attendance_records (store w) @ [row]\<rparr>)"
proof (cases "memberId = [] \<or> serviceId = []")
  case True
  then show ?thesis by (auto simp: toggleAttendance_def)
next
  case ids: False
  obtain svc w1 where sel: "select_service_date (svc_fault e) serviceId w = (svc, w1)"
    by (cases "select_service_date (svc_fault e) serviceId w")
  then have w1: "w1 = logged (SelectServiceDate serviceId) w"
    by (simp add: select_service_date_def)
  show ?thesis
  proof (cases "error svc = None \<and> data svc \<noteq> None")
    case False
    with ids sel w1 show ?thesis
      by (auto simp: toggleAttendance_def split: option.splits)
  next
    case True
    then obtain d where d: "error svc = None" "data svc = Some d" by auto
    let ?w2 = "logged (SelectAttendanceId memberId serviceId) w1"
    let ?row = "\<lparr>a_id = new_id e, member_id = memberId, service_id = serviceId, a_service_date = d\<rparr>"
    obtain existing w2' where chk:
      "select_attendance_id (chk_fault e) memberId serviceId w1 = (existing, w2')"
      by (cases "select_attendance_id (chk_fault e) memberId serviceId w1")
    have w2': "w2' = ?w2"
      using check_world[of "chk_fault e" memberId serviceId w1] chk by simp
    have ex: "(data existing = None) = (count_pair memberId serviceId (store w) \<noteq> 1)"
      using check_data[of "chk_fault e" memberId serviceId w1] chk assms w1 by simp
    show ?thesis
    proof (cases "data existing")
      case (Some rid)
      have "store (snd (toggleAttendance e memberId serviceId w)) =
              store (snd (delete_attendance (del_fault e) memberId serviceId ?w2))"
        using ids sel d chk w2' Some w1
        by (cases "delete_attendance (del_fault e) memberId serviceId ?w2")
           (auto simp: toggleAttendance_def revalidatePath_def split: option.splits)
      then show ?thesis
        using delete_store[of "del_fault e" memberId serviceId ?w2] w1 by auto
    next
      case None
      have "store (snd (toggleAttendance e memberId serviceId w)) =
              store (snd (insert_attendance (ins_fault e) ?row ?w2))"
        using ids sel d chk w2' None w1
        by (cases "insert_attendance (ins_fault e) ?row ?w2")
           (auto simp: toggleAttendance_def revalidatePath_def split: option.splits)
      moreover have "count_pair (member_id ?row) (service_id ?row) (store w) \<noteq> 1"
        using None ex by simp
      ultimately show ?thesis
        using insert_store[of "ins_fault e" ?row ?w2] w1
        by (elim disjE) (simp, intro disjI2 exI[of _ ?row], simp)
    qed
  qed
qed

lemma invariant_preserved_when_check_answered:
  assumes inv: "at_most_one (store w)" and chk: "chk_fault e = None"
  shows "at_most_one (store (snd (markAttendance e formData w)))
       \<and> at_most_one (store (snd (toggleAttendance e memberId serviceId w)))"
proof
  show "at_most_one (store (snd (markAttendance e formData w)))"
    using mark_store[OF chk, of formData w] inv
    by (auto intro!: at_most_one_insert[OF _ _ refl refl])
  show "at_most_one (store (snd (toggleAttendance e memberId serviceId w)))"
    using toggle_store[OF chk, of memberId serviceId w] inv
    by (auto intro!: at_most_one_insert[OF _ _ refl refl] at_most_one_delete)
qed

text \<open>
  Claim C3. The invariant (at most one attendance row for every pair) should survive
  every execution of \<open>markAttendance\<close> and \<open>toggleAttendance\<close>. It does not: from a store
  that holds one row for the pair, a call whose existence check fails and whose insert
  succeeds returns success and leaves two rows for the pair.
\<close>

theorem C3_invariant_broken_by_failed_check:
  "at_most_one (store ex_marked)
   \<and> fst (markAttendance (ex_env\<lparr>chk_fault := Some ''fetch failed''\<rparr>) (form ''m1'' ''s1'') ex_marked)
       = Returned Success
   \<and> \<not> at_most_one (store (snd (markAttendance (ex_env\<lparr>chk_fault := Some ''fetch failed''\<rparr>)
                                  (form ''m1'' ''s1'') ex_marked)))
   \<and> fst (toggleAttendance (ex_env\<lparr>chk_fault := Some ''fetch failed''\<rparr>) ''m1'' ''s1'' ex_marked)
       = Returned Success
   \<and> \<not> at_most_one (store (snd (toggleAttendance (ex_env\<lparr>chk_fault := Some ''fetch failed''\<rparr>)
                                  ''m1'' ''s1'' ex_marked)))"
  by (simp add: at_most_one_def markAttendance_def toggleAttendance_def form_def
      select_service_date_def select_attendance_id_def insert_attendance_def
      ok_def failed_def logged_def revalidatePath_def Let_def
      ex_marked_def ex_env_def ex_service_def ex_member_def ex_row_def)

section \<open>Read queries and grouping\<close>

lemma sorted_order_asc: "sorted (map key (order_asc key rows))"
  by (simp add: order_asc_def)

lemma sorted_order_desc: "sorted (rev (map key (order_desc key rows)))"
  by (simp add: order_desc_def rev_map)

lemma mset_order_asc: "mset (order_asc key rows) = mset rows"
  by (simp add: order_asc_def)

lemma mset_order_desc: "mset (order_desc key rows) = mset rows"
  by (simp add: order_desc_def)


text \<open>
  Claim C5, amended. When the query succeeds, the attendance page's \<open>getMembers\<close>
  returns the id and full name of every member, ordered by full name ascending; the
  admin page's \<open>getMembers\<close> returns every member ordered by creation timestamp
  descending.
\<close>

theorem C5_getMembers_orders:
  "(\<exists>ms. fst (getMembers None w) = Returned ms
        \<and> mset ms = {# \<lparr>mn_id = m_id m, mn_full_name = full_name m\<rparr>.
                        m \<in># mset (members (store w)) #}
        \<and> sorted (map mn_full_name ms))
   \<and> (\<exists>ms. fst (admin_getMembers None w) = Returned ms
        \<and> mset ms = mset (members (store w))
        \<and> sorted (rev (map m_created_at ms)))"
  by (simp add: getMembers_def admin_getMembers_def mset_order_asc mset_order_desc
      sorted_order_asc sorted_order_desc)

text \<open>
  The claim as stated covers both functions called \<open>getMembers\<close>. The admin page's
  one lists the newest member first: two members created in alphabetical order come
  back in reverse alphabetical order.
\<close>

theorem C5_admin_order_counterexample:
  "fst (admin_getMembers None ex_directory) = Returned [ex_bob, ex_alice]
   \<and> \<not> sorted (map full_name [ex_bob, ex_alice])"
  by (simp add: admin_getMembers_def order_desc_def ex_directory_def ex_alice_def ex_bob_def)

lemma serviceName_joined: "serviceName (joined d a) = ''Unknown Service''"
  by (simp add: serviceName_def joined_def to_one_def split: option.splits)

lemma unknown_not_inherited: "''Unknown Service'' \<notin> set object_prototype_keys"
  by (simp add: object_prototype_keys_def)

lemma reduce_groups_unknown:
  assumes "\<forall>r \<in> set rs. serviceName r = ''Unknown Service''"
  shows "reduce_groups (acc(''Unknown Service'' \<mapsto> xs)) rs =
           Returned (acc(''Unknown Service'' \<mapsto> xs @ rs))"
  using assms
proof (induction rs arbitrary: xs)
  case Nil
  then show ?case by simp
next
  case (Cons r rs)
  then have r: "serviceName r = ''Unknown Service''"
    and rs: "\<forall>x \<in> set rs. serviceName x = ''Unknown Service''"
    by simp_all
  have g: "group_step (acc(''Unknown Service'' \<mapsto> xs)) r =
          Inr (acc(''Unknown Service'' \<mapsto> xs @ [r]))"
    using r by (simp add: group_step_def)
  have "reduce_groups (acc(''Unknown Service'' \<mapsto> xs)) (r # rs) =
          reduce_groups (acc(''Unknown Service'' \<mapsto> xs @ [r])) rs"
    by (simp only: reduce_groups.simps g sum.case)
  also have "\<dots> = Returned (acc(''Unknown Service'' \<mapsto> (xs @ [r]) @ rs))"
    by (rule Cons.IH[OF rs])
  finally show ?case
    by (simp only: append_assoc append_Cons append_Nil)
qed

lemma reduce_groups_from_empty:
  assumes "\<forall>r \<in> set rs. serviceName r = ''Unknown Service''"
  shows "reduce_groups Map.empty rs =
           Returned (if rs = [] then Map.empty else [''Unknown Service'' \<mapsto> rs])"
proof (cases rs)
  case Nil
  then show ?thesis by simp
next
  case (Cons r rs')
  with assms have r: "serviceName r = ''Unknown Service''"
    and rs': "\<forall>x \<in> set rs'. serviceName x = ''Unknown Service''"
    by simp_all
  have g: "group_step Map.empty r = Inr [''Unknown Service'' \<mapsto> [r]]"
    using r unknown_not_inherited by (simp add: group_step_def)
  have "reduce_groups Map.empty (r # rs') =
          reduce_groups [''Unknown Service'' \<mapsto> [r]] rs'"
    by (simp only: reduce_groups.simps g sum.case)
  also have "\<dots> = Returned [''Unknown Service'' \<mapsto> [r] @ rs']"
    by (rule reduce_groups_unknown[OF rs'])
  finally have "reduce_groups Map.empty (r # rs') =
          Returned [''Unknown Service'' \<mapsto> r # rs']"
    by (simp only: append_Cons append_Nil)
  then show ?thesis
    by (simp only: Cons list.distinct if_False)
qed

text \<open>
  Whatever the store holds, every record of \<open>getAttendanceRecords\<close> lands in the one
  group \<open>Unknown Service\<close>.
\<close>

lemma one_group_for_all_records:
  "\<exists>records. fst (getAttendanceRecords None w) = Returned records
     \<and> recordsByService records =
         Returned (if records = [] then Map.empty else [''Unknown Service'' \<mapsto> records])"
proof -
  let ?records = "order_desc r_service_date (map (joined (store w)) (attendance_records (store w)))"
  have "\<forall>r \<in> set ?records. serviceName r = ''Unknown Service''"
    by (auto simp: order_desc_def serviceName_joined)
  then have "reduce_groups Map.empty ?records =
     Returned (if ?records = [] then Map.empty else [''Unknown Service'' \<mapsto> ?records])"
    by (rule reduce_groups_from_empty)
  then show ?thesis
    by (simp add: getAttendanceRecords_def recordsByService_def)
qed

text \<open>
  Claim C6. Grouping the result of \<open>getAttendanceRecords\<close> by service name should give
  every service a group with as many records as \<open>getServiceAttendance\<close> returns for
  it. It does not: the service arrives as one object, \<open>record.services?.[0]\<close> is
  \<open>undefined\<close>, and the record of the only attendee of \<open>Sunday Service\<close> is grouped
  under \<open>Unknown Service\<close>; the service's own name has no group, while
  \<open>getServiceAttendance\<close> returns one row for it.
\<close>

theorem C6_grouped_under_placeholder:
  "fst (getAttendanceRecords None ex_marked) = Returned [joined (store ex_marked) ex_row]
   \<and> r_services (joined (store ex_marked) ex_row) = Obj ''Sunday Service''
   \<and> serviceName (joined (store ex_marked) ex_row) = ''Unknown Service''
   \<and> recordsByService [joined (store ex_marked) ex_row] =
       Returned [''Unknown Service'' \<mapsto> [joined (store ex_marked) ex_row]]
   \<and> attendees [''Unknown Service'' \<mapsto> [joined (store ex_marked) ex_row]] (s_name ex_service) = 0
   \<and> fst (getServiceAttendance None (s_id ex_service) ex_marked) = Returned [ex_row]"
  by (simp add: getAttendanceRecords_def getServiceAttendance_def order_desc_def
      recordsByService_def group_step_def object_prototype_keys_def serviceName_def
      joined_def to_one_def attendees_def
      ex_marked_def ex_service_def ex_member_def ex_row_def)

text \<open>
  Read from an array, as the interface declares it, the same access gives the name;
  and a record whose service is named like an inherited property makes the grouping
  throw.
\<close>

lemma serviceName_of_array:
  "serviceName \<lparr>r_id = i, r_service_date = d, r_services = Arr [''Sunday Service''],
                 r_members = m\<rparr> = ''Sunday Service''"
  by (simp add: serviceName_def)

lemma grouping_throws_on_inherited_name:
  "recordsByService [\<lparr>r_id = i, r_service_date = d, r_services = Arr [''constructor''],
                      r_members = m\<rparr>] =
     Thrown ''TypeError: acc[serviceName].push is not a function''"
  by (simp add: recordsByService_def group_step_def serviceName_def object_prototype_keys_def)


section \<open>Returning and raising\<close>









end
